theory Spec2Isabelle
  imports Main "HOL-Library.Word"
begin

unbundle bit_operations_syntax

section \<open>Data model of the 8-bit ALU\<close>

text \<open>
  The C types of \<^verbatim>\<open>main.c\<close>: \<^verbatim>\<open>uint8_t\<close> and \<^verbatim>\<open>uint16_t\<close> are
  words of that width. An operand of an arithmetic or bitwise operator, and of a
  comparison, is promoted to \<^verbatim>\<open>int\<close> first; every intermediate value of this program
  lies between \<open>-256\<close> and \<open>510\<close>, far inside any C \<^verbatim>\<open>int\<close>, so the promoted
  values are modelled as HOL integers: \<open>uint\<close> is the promotion, \<open>word_of_int\<close> the
  conversion back to an unsigned type (reduction modulo \<open>2 ^ w\<close>), \<open>NOT\<close> on \<open>int\<close>
  is two's complement (\<open>NOT k = - k - 1\<close>), and the value of a comparison, \<open>0\<close> or \<open>1\<close>,
  converted to \<^verbatim>\<open>uint8_t\<close>, is \<open>of_bool\<close>.
\<close>

type_synonym u8 = "8 word"
type_synonym u16 = "16 word"

text \<open>\<^verbatim>\<open>typedef struct { uint8_t Z; uint8_t C; uint8_t N; uint8_t V; } ALUFlags;\<close>\<close>

record ALUFlags =
  Z :: u8
  C :: u8
  N :: u8
  V :: u8

text \<open>
  \<^verbatim>\<open>typedef enum { OP_ADD, OP_SUB, OP_AND, OP_OR, OP_XOR, OP_SHL, OP_SHR } ALUOp;\<close>
  A C enumeration is an integer type, and \<^verbatim>\<open>alu_execute\<close> has a \<^verbatim>\<open>default\<close> branch for
  the values that are none of the seven enumerators. The selector is therefore an integer,
  and the enumerators are the constants \<open>0\<close> to \<open>6\<close>.
\<close>

type_synonym ALUOp = int

definition OP_ADD :: ALUOp where "OP_ADD = 0"
definition OP_SUB :: ALUOp where "OP_SUB = 1"
definition OP_AND :: ALUOp where "OP_AND = 2"
definition OP_OR :: ALUOp where "OP_OR = 3"
definition OP_XOR :: ALUOp where "OP_XOR = 4"
definition OP_SHL :: ALUOp where "OP_SHL = 5"
definition OP_SHR :: ALUOp where "OP_SHR = 6"

section \<open>The operations\<close>

text \<open>
  \<^verbatim>\<open>f->Z = f->C = f->N = f->V = 0;\<close> The chained assignment stores right to left.
\<close>

definition clear_flags :: "ALUFlags \<Rightarrow> ALUFlags" where
  "clear_flags f = f\<lparr>V := 0, N := 0, C := 0, Z := 0\<rparr>"

text \<open>\<^verbatim>\<open>return (uint8_t)((~(a ^ b) & (a ^ r) & 0x80) != 0);\<close>\<close>

definition overflow_add :: "u8 \<Rightarrow> u8 \<Rightarrow> u8 \<Rightarrow> u8" where
  "overflow_add a b r =
     of_bool (((NOT (uint a XOR uint b) AND (uint a XOR uint r)) AND 0x80) \<noteq> 0)"

text \<open>\<^verbatim>\<open>return (uint8_t)(((a ^ b) & (a ^ r) & 0x80) != 0);\<close>\<close>

definition overflow_sub :: "u8 \<Rightarrow> u8 \<Rightarrow> u8 \<Rightarrow> u8" where
  "overflow_sub a b r =
     of_bool ((((uint a XOR uint b) AND (uint a XOR uint r)) AND 0x80) \<noteq> 0)"

text \<open>
  \<^verbatim>\<open>void alu_execute(uint8_t a, uint8_t b, ALUOp op, uint8_t *out, ALUFlags *flags)\<close>
  writes through its two pointers. The model passes the state explicitly: it takes the
  contents of \<^verbatim>\<open>*out\<close> and \<^verbatim>\<open>*flags\<close> before the call and returns their contents after
  it. The two objects are distinct, as they are at the call in \<^verbatim>\<open>main\<close>. The branches
  are those of the \<^verbatim>\<open>switch\<close>, in its order, and the last \<open>else\<close> is its
  \<^verbatim>\<open>default\<close>.
\<close>

definition alu_execute :: "u8 \<Rightarrow> u8 \<Rightarrow> ALUOp \<Rightarrow> u8 \<times> ALUFlags \<Rightarrow> u8 \<times> ALUFlags" where
  "alu_execute a b op s =
     (let (out, flags) = s;
          flags = clear_flags flags;
          (out, flags) =
            (if op = OP_ADD then
               let temp = (word_of_int (uint (ucast a :: u16) + uint (ucast b :: u16)) :: u16);
                   out = (word_of_int (uint temp AND 0xFF) :: u8);
                   flags = flags\<lparr>C := of_bool (uint temp > 0xFF)\<rparr>;
                   flags = flags\<lparr>V := overflow_add a b out\<rparr>
               in (out, flags)
             else if op = OP_SUB then
               let temp = (word_of_int (uint (ucast a :: u16) - uint (ucast b :: u16)) :: u16);
                   out = (word_of_int (uint temp AND 0xFF) :: u8);
                   flags = flags\<lparr>C := of_bool (uint a < uint b)\<rparr>;
                   flags = flags\<lparr>V := overflow_sub a b out\<rparr>
               in (out, flags)
             else if op = OP_AND then
               ((word_of_int (uint a AND uint b) :: u8), flags)
             else if op = OP_OR then
               ((word_of_int (uint a OR uint b) :: u8), flags)
             else if op = OP_XOR then
               ((word_of_int (uint a XOR uint b) :: u8), flags)
             else if op = OP_SHL then
               let flags = flags\<lparr>C := of_bool ((uint a AND 0x80) \<noteq> 0)\<rparr>;
                   out = (word_of_int (push_bit 1 (uint a)) :: u8)
               in (out, flags)
             else if op = OP_SHR then
               let flags = flags\<lparr>C := of_bool ((uint a AND 0x01) \<noteq> 0)\<rparr>;
                   out = (word_of_int (drop_bit 1 (uint a)) :: u8)
               in (out, flags)
             else
               (0, flags));
          flags = flags\<lparr>Z := of_bool (out = 0)\<rparr>;
          flags = flags\<lparr>N := of_bool ((uint out AND 0x80) \<noteq> 0)\<rparr>
      in (out, flags))"

section \<open>C integer promotion and truncation\<close>

lemmas OP_defs = OP_ADD_def OP_SUB_def OP_AND_def OP_OR_def OP_XOR_def OP_SHL_def OP_SHR_def

text \<open>Masking a promoted value with \<^verbatim>\<open>0x80\<close> or \<^verbatim>\<open>0x01\<close> tests one bit.\<close>

lemma int_and_0x80: "((k::int) AND 0x80) \<noteq> 0 \<longleftrightarrow> bit k 7"
  using bit_iff_and_push_bit_not_eq_0 [of k 7] by simp

lemma int_and_0x01: "((k::int) AND 0x01) \<noteq> 0 \<longleftrightarrow> bit k 0"
  using bit_iff_and_push_bit_not_eq_0 [of k 0] by simp

text \<open>Masking with \<^verbatim>\<open>0xFF\<close> keeps the low byte, which the cast to \<^verbatim>\<open>uint8_t\<close> keeps anyway.\<close>

lemma int_and_0xFF: "(k::int) AND 0xFF = take_bit 8 k"
  by (simp add: take_bit_eq_mask mask_eq_exp_minus_1)

lemma trunc_u8: "(word_of_int (k AND 0xFF) :: u8) = word_of_int k"
  unfolding int_and_0xFF
  by (rule bit_word_eqI) (simp add: bit_simps)

lemma trunc_u16_u8: "(word_of_int (uint (word_of_int k :: u16)) :: u8) = word_of_int k"
  by (rule bit_word_eqI) (simp add: bit_simps)

lemma uint_u16_of_u8: "uint (ucast (a::u8) :: u16) = uint a"
  by (simp add: uint_up_ucast is_up)

lemma uint_u8_bounds: "0 \<le> uint (a::u8)" "uint (a::u8) < 256"
  using uint_bounded [of a] by simp_all

text \<open>The 16-bit \<^verbatim>\<open>temp\<close> holds the sum of two bytes without loss.\<close>

lemma temp_add: "uint (word_of_int (uint (a::u8) + uint (b::u8)) :: u16) = uint a + uint b"
proof -
  have "0 \<le> uint a + uint b" "uint a + uint b < 2 ^ 16"
    using uint_u8_bounds [of a] uint_u8_bounds [of b] by simp_all
  then show ?thesis
    by (simp only: uint_word_of_int len_of_numeral_defs) (simp del: of_int_add)
qed

subsection \<open>The value stored in \<^verbatim>\<open>*out\<close> by each branch\<close>

lemma add_out:
  "(word_of_int (uint (word_of_int (uint (ucast a :: u16) + uint (ucast b :: u16)) :: u16)
      AND 0xFF) :: u8) = a + b"
  by (simp only: trunc_u8 trunc_u16_u8 uint_u16_of_u8) simp

lemma sub_out:
  "(word_of_int (uint (word_of_int (uint (ucast a :: u16) - uint (ucast b :: u16)) :: u16)
      AND 0xFF) :: u8) = a - b"
  by (simp only: trunc_u8 trunc_u16_u8 uint_u16_of_u8) simp

lemma and_out: "(word_of_int (uint a AND uint b) :: u8) = a AND b"
  by (rule bit_word_eqI) (simp add: bit_simps)

lemma or_out: "(word_of_int (uint a OR uint b) :: u8) = a OR b"
  by (rule bit_word_eqI) (simp add: bit_simps)

lemma xor_out: "(word_of_int (uint a XOR uint b) :: u8) = a XOR b"
  by (rule bit_word_eqI) (simp add: bit_simps)

lemma shl_out: "(word_of_int (push_bit 1 (uint a)) :: u8) = push_bit 1 a"
  by (rule bit_word_eqI) (auto simp add: bit_simps)

lemma shr_out: "(word_of_int (drop_bit 1 (uint a)) :: u8) = drop_bit 1 a"
  by (rule bit_word_eqI) (auto simp add: bit_simps)

subsection \<open>The carry tests and the overflow helpers\<close>

lemma add_carry:
  "uint (word_of_int (uint (ucast (a::u8) :: u16) + uint (ucast (b::u8) :: u16)) :: u16) > 0xFF
     \<longleftrightarrow> 256 \<le> unat a + unat b"
proof -
  have "uint a = int (unat a)" "uint b = int (unat b)"
    by simp_all
  then show ?thesis
    unfolding uint_u16_of_u8 temp_add by linarith
qed

lemma sub_borrow: "uint (a::u8) < uint b \<longleftrightarrow> a < b"
  by (simp add: word_less_def)

lemma overflow_add_eq:
  "overflow_add a b r = of_bool (bit (NOT (a XOR b) AND (a XOR r)) 7)"
  unfolding overflow_add_def int_and_0x80 by (simp add: bit_simps)

lemma overflow_sub_eq:
  "overflow_sub a b r = of_bool (bit ((a XOR b) AND (a XOR r)) 7)"
  unfolding overflow_sub_def int_and_0x80 by (simp add: bit_simps)

lemma clear_flags_eq: "clear_flags f = \<lparr>Z = 0, C = 0, N = 0, V = 0\<rparr>"
  by (cases f) (simp add: clear_flags_def)

section \<open>What \<^verbatim>\<open>alu_execute\<close> returns, operation by operation\<close>

text \<open>
  Each lemma gives the result and the four flags of one branch of the \<^verbatim>\<open>switch\<close>, in
  terms of 8-bit words, for any contents \<open>s\<close> of \<^verbatim>\<open>*out\<close> and \<^verbatim>\<open>*flags\<close> before the
  call.
\<close>

lemma alu_add:
  "alu_execute a b OP_ADD s =
     (a + b, \<lparr>Z = of_bool (a + b = 0), C = of_bool (256 \<le> unat a + unat b),
              N = of_bool (bit (a + b) 7),
              V = of_bool (bit (NOT (a XOR b) AND (a XOR (a + b))) 7)\<rparr>)"
  unfolding alu_execute_def Let_def add_out add_carry int_and_0x80 overflow_add_eq clear_flags_eq
  by (simp add: split_def bit_simps)

lemma alu_sub:
  "alu_execute a b OP_SUB s =
     (a - b, \<lparr>Z = of_bool (a - b = 0), C = of_bool (a < b),
              N = of_bool (bit (a - b) 7),
              V = of_bool (bit ((a XOR b) AND (a XOR (a - b))) 7)\<rparr>)"
  unfolding alu_execute_def Let_def sub_out sub_borrow int_and_0x80 overflow_sub_eq clear_flags_eq
  by (simp add: split_def bit_simps OP_defs)

lemma alu_and:
  "alu_execute a b OP_AND s =
     (a AND b, \<lparr>Z = of_bool (a AND b = 0), C = 0, N = of_bool (bit (a AND b) 7), V = 0\<rparr>)"
  unfolding alu_execute_def Let_def and_out int_and_0x80 clear_flags_eq
  by (simp add: split_def bit_simps OP_defs)

lemma alu_or:
  "alu_execute a b OP_OR s =
     (a OR b, \<lparr>Z = of_bool (a OR b = 0), C = 0, N = of_bool (bit (a OR b) 7), V = 0\<rparr>)"
  unfolding alu_execute_def Let_def or_out int_and_0x80 clear_flags_eq
  by (simp add: split_def bit_simps OP_defs)

lemma alu_xor:
  "alu_execute a b OP_XOR s =
     (a XOR b, \<lparr>Z = of_bool (a XOR b = 0), C = 0, N = of_bool (bit (a XOR b) 7), V = 0\<rparr>)"
  unfolding alu_execute_def Let_def xor_out int_and_0x80 clear_flags_eq
  by (simp add: split_def bit_simps OP_defs)

lemma alu_shl:
  "alu_execute a b OP_SHL s =
     (push_bit 1 a, \<lparr>Z = of_bool (push_bit 1 a = 0), C = of_bool (bit a 7),
                     N = of_bool (bit (push_bit 1 a) 7), V = 0\<rparr>)"
  unfolding alu_execute_def Let_def shl_out int_and_0x80 clear_flags_eq
  by (simp add: split_def bit_simps OP_defs)

lemma alu_shr:
  "alu_execute a b OP_SHR s =
     (drop_bit 1 a, \<lparr>Z = of_bool (drop_bit 1 a = 0), C = of_bool (bit a 0),
                     N = of_bool (bit (drop_bit 1 a) 7), V = 0\<rparr>)"
  unfolding alu_execute_def Let_def shr_out int_and_0x80 int_and_0x01 clear_flags_eq
  by (simp add: split_def bit_simps OP_defs)

lemma alu_default:
  "op \<notin> {OP_ADD, OP_SUB, OP_AND, OP_OR, OP_XOR, OP_SHL, OP_SHR} \<Longrightarrow>
   alu_execute a b op s = (0, \<lparr>Z = 1, C = 0, N = 0, V = 0\<rparr>)"
  unfolding alu_execute_def Let_def clear_flags_eq
  by (simp add: split_def)

text \<open>
  The two common updates at the end of \<^verbatim>\<open>alu_execute\<close>, for any selector: whatever the
  branch stored, \<open>Z\<close> and \<open>N\<close> are computed from the final \<^verbatim>\<open>*out\<close>.
\<close>

lemma alu_Z: "Z (snd (alu_execute a b op s)) = of_bool (fst (alu_execute a b op s) = 0)"
  unfolding alu_execute_def Let_def by (simp add: split_def)

lemma alu_N: "N (snd (alu_execute a b op s)) = of_bool (bit (fst (alu_execute a b op s)) 7)"
  unfolding alu_execute_def Let_def int_and_0x80 by (simp add: split_def bit_simps)

text \<open>The contents of \<^verbatim>\<open>*out\<close> and \<^verbatim>\<open>*flags\<close> before the call do not reach the output.\<close>

lemma alu_stateless: "alu_execute a b op s = alu_execute a b op s'"
  unfolding alu_execute_def Let_def clear_flags_eq by (simp add: split_def)

section \<open>The sample evaluations of the specification\<close>

text \<open>
  The definitions compute. Each evaluation below unfolds the model itself, not the lemmas
  above, on a state whose result byte and flags are all set before the call.
\<close>

lemmas alu_eval = alu_execute_def clear_flags_def overflow_add_def overflow_sub_def OP_defs

lemma example_add_carry:
  "alu_execute 255 1 OP_ADD (0x33, \<lparr>Z = 1, C = 1, N = 1, V = 1\<rparr>)
     = (0, \<lparr>Z = 1, C = 1, N = 0, V = 0\<rparr>)"
  by (simp add: alu_eval)

lemma example_add_overflow:
  "alu_execute 0x7F 1 OP_ADD (0x33, \<lparr>Z = 1, C = 1, N = 1, V = 1\<rparr>)
     = (0x80, \<lparr>Z = 0, C = 0, N = 1, V = 1\<rparr>)"
  by (simp add: alu_eval)

lemma example_sub_borrow:
  "alu_execute 10 40 OP_SUB (0x33, \<lparr>Z = 1, C = 1, N = 1, V = 1\<rparr>)
     = (0xE2, \<lparr>Z = 0, C = 1, N = 1, V = 0\<rparr>)"
  by (simp add: alu_eval)

lemma example_sub_overflow:
  "alu_execute 0x80 1 OP_SUB (0x33, \<lparr>Z = 1, C = 1, N = 1, V = 1\<rparr>)
     = (0x7F, \<lparr>Z = 0, C = 0, N = 0, V = 1\<rparr>)"
  by (simp add: alu_eval)

lemma example_shl:
  "alu_execute 0x81 0 OP_SHL (0x33, \<lparr>Z = 1, C = 1, N = 1, V = 1\<rparr>)
     = (0x02, \<lparr>Z = 0, C = 1, N = 0, V = 0\<rparr>)"
  by (simp add: alu_eval)

lemma example_shr:
  "alu_execute 0x03 0 OP_SHR (0x33, \<lparr>Z = 1, C = 1, N = 1, V = 1\<rparr>)
     = (0x01, \<lparr>Z = 0, C = 1, N = 0, V = 0\<rparr>)"
  by (simp add: alu_eval)

section \<open>The claims\<close>

text \<open>
  In every statement \<open>s\<close> is the pair of the contents of \<^verbatim>\<open>*out\<close> and \<^verbatim>\<open>*flags\<close> before
  the call; \<open>fst\<close> of the value of \<open>alu_execute\<close> is the result left in \<^verbatim>\<open>*out\<close>, \<open>snd\<close>
  the flags left in \<^verbatim>\<open>*flags\<close>.
\<close>

text \<open>
  C1. For all 8-bit operands \<open>a\<close>, \<open>b\<close>, the operation Add returns \<open>(a + b) mod 256\<close>,
  sets Carry to 1 exactly when \<open>a + b \<ge> 256\<close>, and sets Overflow to 1 exactly when \<open>a\<close>
  and \<open>b\<close> have the same bit 7 and bit 7 of the result differs from it, that is, exactly
  when bit 7 of \<open>NOT (a XOR b) AND (a XOR result)\<close> is set.
\<close>

theorem add_result_carry_overflow:
  "unat (fst (alu_execute a b OP_ADD s)) = (unat a + unat b) mod 256 \<and>
   (C (snd (alu_execute a b OP_ADD s)) = 1 \<longleftrightarrow> 256 \<le> unat a + unat b) \<and>
   (V (snd (alu_execute a b OP_ADD s)) = 1 \<longleftrightarrow>
      bit a 7 = bit b 7 \<and> bit (fst (alu_execute a b OP_ADD s)) 7 \<noteq> bit a 7) \<and>
   (V (snd (alu_execute a b OP_ADD s)) = 1 \<longleftrightarrow>
      bit (NOT (a XOR b) AND (a XOR fst (alu_execute a b OP_ADD s))) 7)"
proof (intro conjI)
  show "unat (fst (alu_execute a b OP_ADD s)) = (unat a + unat b) mod 256"
    by (simp add: alu_add unat_word_ariths)
  show "C (snd (alu_execute a b OP_ADD s)) = 1 \<longleftrightarrow> 256 \<le> unat a + unat b"
    by (simp add: alu_add)
  show "V (snd (alu_execute a b OP_ADD s)) = 1 \<longleftrightarrow>
      bit a 7 = bit b 7 \<and> bit (fst (alu_execute a b OP_ADD s)) 7 \<noteq> bit a 7"
    by (auto simp add: alu_add bit_simps)
  show "V (snd (alu_execute a b OP_ADD s)) = 1 \<longleftrightarrow>
      bit (NOT (a XOR b) AND (a XOR fst (alu_execute a b OP_ADD s))) 7"
    by (simp add: alu_add)
qed

text \<open>
  C2. For all 8-bit operands \<open>a\<close>, \<open>b\<close>, the operation Subtract returns
  \<open>(a - b) mod 256\<close>, sets Carry to 1 exactly when \<open>a < b\<close> (a borrow), and sets Overflow
  to 1 exactly when \<open>a\<close> and \<open>b\<close> differ in bit 7 and bit 7 of the result differs from
  that of \<open>a\<close>, that is, exactly when bit 7 of \<open>(a XOR b) AND (a XOR result)\<close> is set.
\<close>

theorem sub_result_borrow_overflow:
  "uint (fst (alu_execute a b OP_SUB s)) = (uint a - uint b) mod 256 \<and>
   (C (snd (alu_execute a b OP_SUB s)) = 1 \<longleftrightarrow> unat a < unat b) \<and>
   (V (snd (alu_execute a b OP_SUB s)) = 1 \<longleftrightarrow>
      bit a 7 \<noteq> bit b 7 \<and> bit (fst (alu_execute a b OP_SUB s)) 7 \<noteq> bit a 7) \<and>
   (V (snd (alu_execute a b OP_SUB s)) = 1 \<longleftrightarrow>
      bit ((a XOR b) AND (a XOR fst (alu_execute a b OP_SUB s))) 7)"
proof (intro conjI)
  show "uint (fst (alu_execute a b OP_SUB s)) = (uint a - uint b) mod 256"
    by (simp add: alu_sub uint_word_ariths)
  show "C (snd (alu_execute a b OP_SUB s)) = 1 \<longleftrightarrow> unat a < unat b"
    by (simp add: alu_sub word_less_nat_alt)
  show "V (snd (alu_execute a b OP_SUB s)) = 1 \<longleftrightarrow>
      bit a 7 \<noteq> bit b 7 \<and> bit (fst (alu_execute a b OP_SUB s)) 7 \<noteq> bit a 7"
    by (auto simp add: alu_sub bit_simps)
  show "V (snd (alu_execute a b OP_SUB s)) = 1 \<longleftrightarrow>
      bit ((a XOR b) AND (a XOR fst (alu_execute a b OP_SUB s))) 7"
    by (simp add: alu_sub)
qed

text \<open>
  C3. For all operands and every selector \<open>op\<close>, one of the seven operations or not, the
  returned flags have Zero = 1 exactly when the returned result is 0, and Negative = 1
  exactly when bit 7 of the returned result is set.
\<close>

theorem zero_negative_follow_result:
  "(Z (snd (alu_execute a b op s)) = 1 \<longleftrightarrow> fst (alu_execute a b op s) = 0) \<and>
   (N (snd (alu_execute a b op s)) = 1 \<longleftrightarrow> bit (fst (alu_execute a b op s)) 7)"
  by (simp add: alu_Z alu_N)

text \<open>
  C4. For all operands and every selector that is none of the seven operations, the call
  returns (the model is a total function: there is no error value to return) with result
  0, Zero = 1, Carry = 0, Negative = 0 and Overflow = 0.
\<close>

theorem unrecognized_op_zero:
  assumes "op \<notin> {OP_ADD, OP_SUB, OP_AND, OP_OR, OP_XOR, OP_SHL, OP_SHR}"
  shows "alu_execute a b op s = (0, \<lparr>Z = 1, C = 0, N = 0, V = 0\<rparr>)"
  using assms by (rule alu_default)

theorem unrecognized_op_zero_witness:
  "(7::int) \<notin> {OP_ADD, OP_SUB, OP_AND, OP_OR, OP_XOR, OP_SHL, OP_SHR} \<and>
   alu_execute 0x5A 0xC3 7 (0xEE, \<lparr>Z = 1, C = 1, N = 1, V = 1\<rparr>)
     = (0, \<lparr>Z = 1, C = 0, N = 0, V = 0\<rparr>)"
proof -
  have h: "(7::int) \<notin> {OP_ADD, OP_SUB, OP_AND, OP_OR, OP_XOR, OP_SHL, OP_SHR}"
    by (simp add: OP_defs)
  show ?thesis
    using h unrecognized_op_zero [OF h, of "0x5A" "0xC3" "(0xEE, \<lparr>Z = 1, C = 1, N = 1, V = 1\<rparr>)"]
    by simp
qed

text \<open>
  C5. For all operands, BitwiseAnd, BitwiseOr and BitwiseXor return \<open>a AND b\<close>,
  \<open>a OR b\<close> and \<open>a XOR b\<close>, and each of the three leaves Carry = 0 and Overflow = 0.
\<close>

theorem bitwise_results_no_carry_overflow:
  "fst (alu_execute a b OP_AND s) = a AND b \<and>
   C (snd (alu_execute a b OP_AND s)) = 0 \<and> V (snd (alu_execute a b OP_AND s)) = 0 \<and>
   fst (alu_execute a b OP_OR s) = a OR b \<and>
   C (snd (alu_execute a b OP_OR s)) = 0 \<and> V (snd (alu_execute a b OP_OR s)) = 0 \<and>
   fst (alu_execute a b OP_XOR s) = a XOR b \<and>
   C (snd (alu_execute a b OP_XOR s)) = 0 \<and> V (snd (alu_execute a b OP_XOR s)) = 0"
  by (simp add: alu_and alu_or alu_xor)

text \<open>
  C6. For all operands, ShiftLeftLogical returns \<open>a\<close> shifted left by one bit and
  truncated to 8 bits (\<open>2 * a mod 256\<close>), Carry is the former bit 7 of \<open>a\<close>, Overflow is
  0, and the whole output is the same for any other second operand \<open>b'\<close>.
\<close>

theorem shl_result_carry:
  "fst (alu_execute a b OP_SHL s) = push_bit 1 a \<and>
   unat (fst (alu_execute a b OP_SHL s)) = (2 * unat a) mod 256 \<and>
   C (snd (alu_execute a b OP_SHL s)) = of_bool (bit a 7) \<and>
   V (snd (alu_execute a b OP_SHL s)) = 0 \<and>
   alu_execute a b OP_SHL s = alu_execute a b' OP_SHL s'"
proof (intro conjI)
  show "unat (fst (alu_execute a b OP_SHL s)) = (2 * unat a) mod 256"
    by (simp add: alu_shl unat_word_ariths push_bit_eq_mult mult.commute)
qed (simp_all add: alu_shl)

text \<open>
  C7. For all operands, ShiftRightLogical returns \<open>a\<close> shifted right by one bit with a
  0 entering at the top (\<open>a div 2\<close>), Carry is the former bit 0 of \<open>a\<close>, Overflow is 0,
  and the whole output is the same for any other second operand \<open>b'\<close>.
\<close>

theorem shr_result_carry:
  "fst (alu_execute a b OP_SHR s) = drop_bit 1 a \<and>
   unat (fst (alu_execute a b OP_SHR s)) = unat a div 2 \<and>
   C (snd (alu_execute a b OP_SHR s)) = of_bool (bit a 0) \<and>
   V (snd (alu_execute a b OP_SHR s)) = 0 \<and>
   alu_execute a b OP_SHR s = alu_execute a b' OP_SHR s'"
proof (intro conjI)
  show "unat (fst (alu_execute a b OP_SHR s)) = unat a div 2"
    by (simp add: alu_shr drop_bit_eq_div unat_div)
qed (simp_all add: alu_shr)

text \<open>
  C8. The evaluation is deterministic and stateless: with the same operands and selector
  it returns the same result and flags whatever \<^verbatim>\<open>*out\<close> and \<^verbatim>\<open>*flags\<close> held before,
  in particular when they hold what an earlier evaluation left there; and the reset at
  its start sets all four flags to 0.
\<close>

theorem stateless_deterministic:
  "alu_execute a b op s = alu_execute a b op s' \<and>
   alu_execute a b op (alu_execute a' b' op' s) = alu_execute a b op s \<and>
   clear_flags f = \<lparr>Z = 0, C = 0, N = 0, V = 0\<rparr>"
  using alu_stateless [of a b op s s'] alu_stateless [of a b op "alu_execute a' b' op' s" s]
  by (simp add: clear_flags_eq)

text \<open>
  C9. For all operands, ShiftRightLogical leaves Negative = 0: bit 7 of the shifted
  result is always clear.
\<close>

theorem shr_never_negative:
  "N (snd (alu_execute a b OP_SHR s)) = 0 \<and> \<not> bit (fst (alu_execute a b OP_SHR s)) 7"
proof -
  have "\<not> bit (drop_bit 1 a) 7"
    using bit_imp_le_length [of a 8] by (auto simp add: bit_simps)
  then show ?thesis
    by (simp add: alu_shr)
qed

text \<open>
  C10. For all operands, Subtract sets Zero to 1 exactly when \<open>a = b\<close>, so Zero and
  Carry are never both 1 after a Subtract.
\<close>

theorem sub_zero_iff_equal:
  "(Z (snd (alu_execute a b OP_SUB s)) = 1 \<longleftrightarrow> a = b) \<and>
   \<not> (Z (snd (alu_execute a b OP_SUB s)) = 1 \<and> C (snd (alu_execute a b OP_SUB s)) = 1)"
  by (auto simp add: alu_sub)

end
